theory Spec2Isabelle
  imports Main "HOL-Library.AList"
begin

section \<open>Python values held by the settings entities\<close>

text \<open>
  The entities of \<^verbatim>\<open>dtlpy/entities/setting.py\<close> hold whatever the platform's JSON holds:
  \<^verbatim>\<open>None\<close>, booleans, integers, strings, lists and dictionaries with string keys.
  A dictionary is an association list in insertion order, as a Python \<^verbatim>\<open>dict\<close> keeps it;
  a lookup finds the first entry of a key. Floating point numbers are left out of the
  value universe. Values are trees: two positions of a value never share one mutable
  object, as is the case for every value decoded from JSON text.
\<close>

datatype pyval =
    PNone
  | PBool bool
  | PInt int
  | PStr string
  | PList "pyval list"
  | PDict "(string \<times> pyval) list"

text \<open>
  The exceptions the module can raise: the constructor's
  \<^verbatim>\<open>Exception('Must provide either value or default_value')\<close>, and the interpreter's
  own errors for an operation applied to a value of the wrong type.
\<close>

datatype error = ValidationError | TypeError | AttributeError | KeyError | ValueError

type_synonym pydict = "(string \<times> pyval) list"

text \<open>\<^verbatim>\<open>bool(v)\<close>, the test of an \<^verbatim>\<open>if v:\<close>.\<close>

fun truthy :: "pyval \<Rightarrow> bool" where
  "truthy PNone = False"
| "truthy (PBool b) = b"
| "truthy (PInt i) = (i \<noteq> 0)"
| "truthy (PStr s) = (s \<noteq> [])"
| "truthy (PList xs) = (xs \<noteq> [])"
| "truthy (PDict d) = (d \<noteq> [])"

text \<open>\<^verbatim>\<open>isinstance(v, dict)\<close> and \<^verbatim>\<open>isinstance(v, list)\<close>.\<close>

fun is_dict :: "pyval \<Rightarrow> bool" where
  "is_dict (PDict d) = True"
| "is_dict v = False"

fun is_list :: "pyval \<Rightarrow> bool" where
  "is_list (PList xs) = True"
| "is_list v = False"

text \<open>\<^verbatim>\<open>d.get(k, None)\<close> on a dictionary.\<close>

definition py_get :: "pydict \<Rightarrow> string \<Rightarrow> pyval" where
  "py_get d k = (case map_of d k of None \<Rightarrow> PNone | Some v \<Rightarrow> v)"

text \<open>
  \<^verbatim>\<open>d[k] = v\<close> on a dictionary: the value of an existing key is replaced where it
  stands, a new key is appended.
\<close>

definition py_setitem :: "pydict \<Rightarrow> string \<Rightarrow> pyval \<Rightarrow> pydict" where
  "py_setitem d k v = AList.update k v d"

text \<open>\<^verbatim>\<open>p in s\<close> on two strings: \<open>p\<close> occurs in \<open>s\<close> as a contiguous run.\<close>

fun str_startswith :: "string \<Rightarrow> string \<Rightarrow> bool" where
  "str_startswith s [] = True"
| "str_startswith [] (c # p) = False"
| "str_startswith (a # s) (c # p) = (a = c \<and> str_startswith s p)"

fun str_contains :: "string \<Rightarrow> string \<Rightarrow> bool" where
  "str_contains [] p = (p = [])"
| "str_contains (a # s) p = (str_startswith (a # s) p \<or> str_contains s p)"

text \<open>
  \<^verbatim>\<open>k in v\<close> for a string \<open>k\<close>: a key test on a dictionary, a membership test on a
  list, a substring test on a string, and a \<^verbatim>\<open>TypeError\<close> on \<^verbatim>\<open>None\<close>, a boolean or
  an integer.
\<close>

fun py_contains :: "pyval \<Rightarrow> string \<Rightarrow> error + bool" where
  "py_contains (PDict d) k = Inr (map_of d k \<noteq> None)"
| "py_contains (PList xs) k = Inr (PStr k \<in> set xs)"
| "py_contains (PStr s) k = Inr (str_contains s k)"
| "py_contains v k = Inl TypeError"

text \<open>
  \<^verbatim>\<open>v[k]\<close> for a string \<open>k\<close>: the value of the key on a dictionary
  (\<^verbatim>\<open>KeyError\<close> when absent), a \<^verbatim>\<open>TypeError\<close> on every other value.
\<close>

fun py_getitem :: "pyval \<Rightarrow> string \<Rightarrow> error + pyval" where
  "py_getitem (PDict d) k = (case map_of d k of None \<Rightarrow> Inl KeyError | Some v \<Rightarrow> Inr v)"
| "py_getitem v k = Inl TypeError"

text \<open>
  The elements a \<^verbatim>\<open>for x in v\<close> loop visits: the elements of a list, the keys of a
  dictionary, the characters of a string; \<^verbatim>\<open>TypeError\<close> otherwise.
\<close>

fun py_iter :: "pyval \<Rightarrow> error + pyval list" where
  "py_iter (PList xs) = Inr xs"
| "py_iter (PDict d) = Inr (map (\<lambda>kv. PStr (fst kv)) d)"
| "py_iter (PStr s) = Inr (map (\<lambda>c. PStr [c]) s)"
| "py_iter v = Inl TypeError"

text \<open>
  A loop body run on each element in turn, each returning the element as the body left
  it; the first exception ends the loop.
\<close>

fun for_each :: "('a \<Rightarrow> error + 'b) \<Rightarrow> 'a list \<Rightarrow> error + 'b list" where
  "for_each f [] = Inr []"
| "for_each f (x # xs) =
     (case f x of
        Inl e \<Rightarrow> Inl e
      | Inr y \<Rightarrow> (case for_each f xs of Inl e \<Rightarrow> Inl e | Inr ys \<Rightarrow> Inr (y # ys)))"

section \<open>SettingScope\<close>

record SettingScope =
  type :: pyval
  id :: pyval
  role :: pyval
  prevent_override :: pyval
  visible :: pyval

text \<open>
  \<^verbatim>\<open>SettingScope.from_json(_json)\<close> calls \<^verbatim>\<open>_json.get\<close>: only a dictionary has that
  method, every other argument (also \<^verbatim>\<open>None\<close>) raises \<^verbatim>\<open>AttributeError\<close>.
\<close>

fun SettingScope_from_json :: "pyval \<Rightarrow> error + SettingScope" where
  "SettingScope_from_json (PDict d) =
     Inr \<lparr> type = py_get d ''type'',
           id = py_get d ''id'',
           role = py_get d ''role'',
           prevent_override = py_get d ''preventOverride'',
           visible = py_get d ''visible'' \<rparr>"
| "SettingScope_from_json v = Inl AttributeError"

definition SettingScope_to_json :: "SettingScope \<Rightarrow> pydict" where
  "SettingScope_to_json self =
     (let j = [];
          j = (if truthy (type self) then py_setitem j ''type'' (type self) else j);
          j = (if truthy (id self) then py_setitem j ''id'' (id self) else j);
          j = (if truthy (role self) then py_setitem j ''role'' (role self) else j);
          j = (if truthy (prevent_override self)
               then py_setitem j ''preventOverride'' (prevent_override self) else j);
          j = (if truthy (visible self) then py_setitem j ''visible'' (visible self) else j)
      in j)"

section \<open>BaseSetting\<close>

text \<open>
  The three context arguments \<^verbatim>\<open>client_api\<close>, \<^verbatim>\<open>project\<close> and \<^verbatim>\<open>org\<close> are
  objects of the SDK that the module only stores and hands on; their types are
  parameters. \<^verbatim>\<open>repositories.Settings\<close> is defined outside this module: the
  collaborator it builds is represented by the three arguments it is built from.
\<close>

record ('c, 'p, 'o) BaseSetting =
  default_value :: pyval
  name :: pyval
  "value" :: pyval
  value_type :: pyval
  scope :: SettingScope
  metadata :: pyval
  setting_type :: pyval
  client_api :: 'c
  project :: 'p
  org :: 'o
  id :: pyval
  settings :: "'c \<times> 'p \<times> 'o"

text \<open>\<^verbatim>\<open>BaseSetting.__init__\<close>: the check of line 105, then the assignments.\<close>

definition BaseSetting_init ::
  "pyval \<Rightarrow> pyval \<Rightarrow> pyval \<Rightarrow> pyval \<Rightarrow> SettingScope \<Rightarrow> pyval \<Rightarrow> pyval \<Rightarrow> pyval
     \<Rightarrow> 'c \<Rightarrow> 'p \<Rightarrow> 'o \<Rightarrow> error + ('c, 'p, 'o) BaseSetting" where
  "BaseSetting_init default_value' value' name' value_type' scope' metadata' setting_type'
       id' client_api' project' org' =
     (if value' = PNone \<and> default_value' = PNone then Inl ValidationError
      else Inr \<lparr> default_value = default_value',
                 name = name',
                 value = value',
                 value_type = value_type',
                 scope = scope',
                 metadata = metadata',
                 setting_type = setting_type',
                 client_api = client_api',
                 project = project',
                 org = org',
                 id = id',
                 settings = (client_api', project', org') \<rparr>)"

text \<open>
  \<^verbatim>\<open>BaseSetting.from_json\<close>: the scope is decoded first, from
  \<^verbatim>\<open>_json.get('scope', None)\<close>, then the constructor runs.
\<close>

definition BaseSetting_from_json ::
  "pydict \<Rightarrow> 'c \<Rightarrow> 'p \<Rightarrow> 'o \<Rightarrow> error + ('c, 'p, 'o) BaseSetting" where
  "BaseSetting_from_json j client_api' project' org' =
     (case SettingScope_from_json (py_get j ''scope'') of
        Inl e \<Rightarrow> Inl e
      | Inr scope' \<Rightarrow>
          BaseSetting_init (py_get j ''defaultValue'') (py_get j ''value'') (py_get j ''name'')
            (py_get j ''valueType'') scope' (py_get j ''metadata'') (py_get j ''settingType'')
            (py_get j ''id'') client_api' project' org')"

text \<open>
  The body of the loop in \<^verbatim>\<open>__slot_to_db_slot\<close> (lines 144 and 145) on one
  \<^verbatim>\<open>display_scope\<close>; the encoder \<^verbatim>\<open>json.dumps\<close> of Python's standard library is the
  parameter \<open>dumps\<close>. The result is the element as the body leaves it.
\<close>

definition display_scope_to_db :: "(pyval \<Rightarrow> string) \<Rightarrow> pyval \<Rightarrow> error + pyval" where
  "display_scope_to_db dumps display_scope =
     (case py_contains display_scope ''filter'' of
        Inl e \<Rightarrow> Inl e
      | Inr False \<Rightarrow> Inr display_scope
      | Inr True \<Rightarrow>
          (case py_getitem display_scope ''filter'' of
             Inl e \<Rightarrow> Inl e
           | Inr f \<Rightarrow>
               (if is_dict f
                then (case display_scope of
                        PDict d \<Rightarrow> Inr (PDict (py_setitem d ''filter'' (PStr (dumps f))))
                      | _ \<Rightarrow> Inl TypeError)
                else Inr display_scope)))"

text \<open>
  \<^verbatim>\<open>BaseSetting.__slot_to_db_slot\<close>. The slot is returned as the call leaves it: when
  \<^verbatim>\<open>scopes\<close> is a list its elements are the objects the loop body changes; when it is a
  dictionary or a string the loop visits strings, which the body cannot change.
\<close>

definition slot_to_db_slot :: "(pyval \<Rightarrow> string) \<Rightarrow> pyval \<Rightarrow> error + pyval" where
  "slot_to_db_slot dumps slot =
     (case py_contains slot ''displayScopes'' of
        Inl e \<Rightarrow> Inl e
      | Inr False \<Rightarrow> Inr slot
      | Inr True \<Rightarrow>
          (case py_getitem slot ''displayScopes'' of
             Inl e \<Rightarrow> Inl e
           | Inr scopes \<Rightarrow>
               (if truthy scopes
                then (case py_iter scopes of
                        Inl e \<Rightarrow> Inl e
                      | Inr xs \<Rightarrow>
                          (case for_each (display_scope_to_db dumps) xs of
                             Inl e \<Rightarrow> Inl e
                           | Inr ys \<Rightarrow>
                               (case (slot, scopes) of
                                  (PDict d, PList _) \<Rightarrow>
                                    Inr (PDict (py_setitem d ''displayScopes'' (PList ys)))
                                | _ \<Rightarrow> Inr slot)))
                else Inr slot)))"

text \<open>
  Lines 148 to 150 of \<^verbatim>\<open>BaseSetting.to_json\<close>: the metadata as the loop over the slots
  leaves it.
\<close>

definition metadata_to_db :: "(pyval \<Rightarrow> string) \<Rightarrow> pyval \<Rightarrow> error + pyval" where
  "metadata_to_db dumps m =
     (if m = PNone then Inr m
      else (case py_contains m ''slots'' of
              Inl e \<Rightarrow> Inl e
            | Inr False \<Rightarrow> Inr m
            | Inr True \<Rightarrow>
                (case py_getitem m ''slots'' of
                   Inl e \<Rightarrow> Inl e
                 | Inr slots \<Rightarrow>
                     (case (m, slots) of
                        (PDict d, PList xs) \<Rightarrow>
                          (case for_each (slot_to_db_slot dumps) xs of
                             Inl e \<Rightarrow> Inl e
                           | Inr ys \<Rightarrow> Inr (PDict (py_setitem d ''slots'' (PList ys))))
                      | _ \<Rightarrow> Inr m))))"

text \<open>
  \<^verbatim>\<open>BaseSetting.to_json\<close> returns the dictionary and leaves the entity changed: the
  result is the pair of the dictionary and the entity after the call. The function is
  defined on every extension of the record, as the method is inherited by every subclass.
\<close>

definition BaseSetting_to_json ::
  "(pyval \<Rightarrow> string) \<Rightarrow> ('c, 'p, 'o, 'z) BaseSetting_scheme
     \<Rightarrow> error + (pydict \<times> ('c, 'p, 'o, 'z) BaseSetting_scheme)" where
  "BaseSetting_to_json dumps self =
     (case metadata_to_db dumps (metadata self) of
        Inl e \<Rightarrow> Inl e
      | Inr m \<Rightarrow>
          (let self = self\<lparr>metadata := m\<rparr>;
               j = [(''name'', name self),
                    (''valueType'', value_type self),
                    (''scope'', PDict (SettingScope_to_json (scope self))),
                    (''settingType'', setting_type self),
                    (''id'', id self)];
               j = (if metadata self \<noteq> PNone then py_setitem j ''metadata'' (metadata self) else j);
               j = (if value self \<noteq> PNone then py_setitem j ''value'' (value self) else j);
               j = (if default_value self \<noteq> PNone
                    then py_setitem j ''defaultValue'' (default_value self) else j)
           in Inr (j, self)))"

section \<open>Setting and UserSetting\<close>

record ('c, 'p, 'o) Setting = "('c, 'p, 'o) BaseSetting" +
  description :: pyval
  inputs :: pyval
  icon :: pyval
  section_name :: pyval
  hint :: pyval
  sub_section_name :: pyval

text \<open>
  \<^verbatim>\<open>Setting.__init__\<close>: the constructor of the base class runs with
  \<^verbatim>\<open>setting_type=SettingsTypes.USER_SETTINGS\<close>, a member of a string enumeration whose
  value is \<^verbatim>\<open>"user_settings"\<close>; then the six fields of the subclass are assigned.
\<close>

definition USER_SETTINGS :: pyval where
  "USER_SETTINGS = PStr ''user_settings''"

definition Setting_init ::
  "pyval \<Rightarrow> pyval \<Rightarrow> pyval \<Rightarrow> SettingScope \<Rightarrow> pyval \<Rightarrow> pyval \<Rightarrow> pyval \<Rightarrow> pyval \<Rightarrow> pyval
     \<Rightarrow> pyval \<Rightarrow> pyval \<Rightarrow> pyval \<Rightarrow> pyval \<Rightarrow> 'c \<Rightarrow> 'p \<Rightarrow> 'o \<Rightarrow> error + ('c, 'p, 'o) Setting" where
  "Setting_init value' name' value_type' scope' section_name' default_value' inputs' metadata'
       description' icon' id' sub_section_name' hint' client_api' project' org' =
     (case BaseSetting_init default_value' value' name' value_type' scope' metadata'
             USER_SETTINGS id' client_api' project' org' of
        Inl e \<Rightarrow> Inl e
      | Inr self \<Rightarrow>
          Inr (BaseSetting.extend self
                 (Setting.fields description' inputs' icon' section_name' hint'
                    sub_section_name')))"

definition Setting_from_json ::
  "pydict \<Rightarrow> 'c \<Rightarrow> 'p \<Rightarrow> 'o \<Rightarrow> error + ('c, 'p, 'o) Setting" where
  "Setting_from_json j client_api' project' org' =
     (case SettingScope_from_json (py_get j ''scope'') of
        Inl e \<Rightarrow> Inl e
      | Inr scope' \<Rightarrow>
          Setting_init (py_get j ''value'') (py_get j ''name'') (py_get j ''valueType'') scope'
            (py_get j ''sectionName'') (py_get j ''defaultValue'') (py_get j ''inputs'')
            (py_get j ''metadata'') (py_get j ''description'') (py_get j ''icon'')
            (py_get j ''id'') (py_get j ''subSectionName'') (py_get j ''hint'')
            client_api' project' org')"

text \<open>\<^verbatim>\<open>Setting.to_json\<close>: \<^verbatim>\<open>super().to_json()\<close>, then the keys of the subclass.\<close>

definition Setting_to_json ::
  "(pyval \<Rightarrow> string) \<Rightarrow> ('c, 'p, 'o, 'z) Setting_scheme
     \<Rightarrow> error + (pydict \<times> ('c, 'p, 'o, 'z) Setting_scheme)" where
  "Setting_to_json dumps self =
     (case BaseSetting_to_json dumps self of
        Inl e \<Rightarrow> Inl e
      | Inr (j, self) \<Rightarrow>
          (let j = (if description self \<noteq> PNone
                    then py_setitem j ''description'' (description self) else j);
               j = (if inputs self \<noteq> PNone then py_setitem j ''inputs'' (inputs self) else j);
               j = (if icon self \<noteq> PNone then py_setitem j ''icon'' (icon self) else j);
               j = (if section_name self \<noteq> PNone
                    then py_setitem j ''sectionName'' (section_name self) else j);
               j = (if hint self \<noteq> PNone then py_setitem j ''hint'' (hint self) else j);
               j = (if sub_section_name self \<noteq> PNone
                    then py_setitem j ''subSectionName'' (sub_section_name self) else j);
               j = (if id self \<noteq> PNone then py_setitem j ''id'' (id self) else j)
           in Inr (j, self)))"



section \<open>The encoder of the standard library and the shape of the wire format\<close>

text \<open>
  \<^verbatim>\<open>json.dumps\<close> with its default arguments, on the value universe above: items are
  separated by a comma and a space, a key from its value by a colon and a space, and
  every character outside the printable ASCII range is escaped. A character stands for
  the code point of its number. The theorems below hold for every encoder; this one is
  the encoder of the concrete evaluations.
\<close>

definition hex_digit :: "nat \<Rightarrow> char" where
  "hex_digit n = ''0123456789abcdef'' ! (n mod 16)"

definition escape_char :: "char \<Rightarrow> string" where
  "escape_char c =
     (if c = CHR 0x22 then [CHR 0x5C, CHR 0x22]
      else if c = CHR 0x5C then [CHR 0x5C, CHR 0x5C]
      else if c = CHR 0x0A then [CHR 0x5C, CHR ''n'']
      else if c = CHR 0x0D then [CHR 0x5C, CHR ''r'']
      else if c = CHR 0x09 then [CHR 0x5C, CHR ''t'']
      else if c = CHR 0x08 then [CHR 0x5C, CHR ''b'']
      else if c = CHR 0x0C then [CHR 0x5C, CHR ''f'']
      else if (of_char c :: nat) < 32 \<or> 126 < (of_char c :: nat)
      then [CHR 0x5C, CHR ''u'', CHR ''0'', CHR ''0'',
            hex_digit (of_char c div 16), hex_digit (of_char c)]
      else [c])"

definition encode_str :: "string \<Rightarrow> string" where
  "encode_str s = [CHR 0x22] @ concat (map escape_char s) @ [CHR 0x22]"

function encode_nat :: "nat \<Rightarrow> string" where
  "encode_nat n =
     (if n < 10 then [''0123456789'' ! n]
      else encode_nat (n div 10) @ [''0123456789'' ! (n mod 10)])"
  by pat_completeness auto
termination
  by (relation "measure (\<lambda>n. n)") auto

definition encode_int :: "int \<Rightarrow> string" where
  "encode_int i = (if i < 0 then ''-'' @ encode_nat (nat (- i)) else encode_nat (nat i))"

fun str_join :: "string \<Rightarrow> string list \<Rightarrow> string" where
  "str_join sep [] = []"
| "str_join sep [x] = x"
| "str_join sep (x # y # ys) = x @ sep @ str_join sep (y # ys)"

fun json_dumps :: "pyval \<Rightarrow> string" where
  "json_dumps PNone = ''null''"
| "json_dumps (PBool b) = (if b then ''true'' else ''false'')"
| "json_dumps (PInt i) = encode_int i"
| "json_dumps (PStr s) = encode_str s"
| "json_dumps (PList xs) = ''['' @ str_join '', '' (map json_dumps xs) @ '']''"
| "json_dumps (PDict d) =
     ''{'' @ str_join '', '' (map (\<lambda>(k, v). encode_str k @ '': '' @ json_dumps v) d) @ ''}''"

text \<open>
  The shape the wire format gives to \<^verbatim>\<open>metadata\<close>, which is also what the annotations
  \<^verbatim>\<open>metadata: dict\<close> and \<^verbatim>\<open>slot: dict\<close> say: null or an object; when its \<^verbatim>\<open>slots\<close> is a
  list, every slot is an object whose \<^verbatim>\<open>displayScopes\<close>, if present and not empty, is a
  list of objects.
\<close>

definition wire_slot :: "pyval \<Rightarrow> bool" where
  "wire_slot slot =
     (case slot of
        PDict d \<Rightarrow>
          (case map_of d ''displayScopes'' of
             None \<Rightarrow> True
           | Some scopes \<Rightarrow>
               (if truthy scopes
                then (case scopes of PList xs \<Rightarrow> list_all is_dict xs | _ \<Rightarrow> False)
                else True))
      | _ \<Rightarrow> False)"

definition wire_metadata :: "pyval \<Rightarrow> bool" where
  "wire_metadata m =
     (case m of
        PNone \<Rightarrow> True
      | PDict d \<Rightarrow>
          (case map_of d ''slots'' of
             Some (PList xs) \<Rightarrow> list_all wire_slot xs
           | _ \<Rightarrow> True)
      | _ \<Rightarrow> False)"

text \<open>
  The path \<^verbatim>\<open>metadata.slots[i].displayScopes[k].filter\<close>: the list under \<^verbatim>\<open>slots\<close> of
  a metadata object, the list under \<^verbatim>\<open>displayScopes\<close> of a slot object, the value under
  \<^verbatim>\<open>filter\<close> of a display scope object, and the value at the end of the whole path
  when every step of it exists. \<open>to_db_filter\<close> is what line 145 stores for a filter
  that line 144 has read.
\<close>

definition to_db_filter :: "(pyval \<Rightarrow> string) \<Rightarrow> pyval \<Rightarrow> pyval" where
  "to_db_filter dumps f = (if is_dict f then PStr (dumps f) else f)"

definition filter_of :: "pyval \<Rightarrow> pyval option" where
  "filter_of display_scope =
     (case display_scope of PDict d \<Rightarrow> map_of d ''filter'' | _ \<Rightarrow> None)"

definition scopes_of :: "pyval \<Rightarrow> pyval list option" where
  "scopes_of slot =
     (case slot of
        PDict d \<Rightarrow> (case map_of d ''displayScopes'' of Some (PList xs) \<Rightarrow> Some xs | _ \<Rightarrow> None)
      | _ \<Rightarrow> None)"

definition slots_of :: "pyval \<Rightarrow> pyval list option" where
  "slots_of m =
     (case m of
        PDict d \<Rightarrow> (case map_of d ''slots'' of Some (PList xs) \<Rightarrow> Some xs | _ \<Rightarrow> None)
      | _ \<Rightarrow> None)"

definition filter_at :: "pyval \<Rightarrow> nat \<Rightarrow> nat \<Rightarrow> pyval option" where
  "filter_at m i k =
     (case slots_of m of
        None \<Rightarrow> None
      | Some slots \<Rightarrow>
          (if i < length slots
           then (case scopes_of (slots ! i) of
                   None \<Rightarrow> None
                 | Some scopes \<Rightarrow> (if k < length scopes then filter_of (scopes ! k) else None))
           else None))"

section \<open>Example entities\<close>

text \<open>
  A scope with two fields that are false, a metadata with one slot whose first display
  scope holds a filter object and whose second holds a filter string, and a feature
  flag built on them. The concrete evaluations below use them.
\<close>

definition example_scope :: SettingScope where
  "example_scope =
     \<lparr> type = PStr ''project'', SettingScope.id = PStr ''p1'', role = PNone,
       prevent_override = PBool False, visible = PBool False \<rparr>"

definition example_metadata :: pyval where
  "example_metadata =
     PDict [(''slots'',
             PList [PDict [(''displayScopes'',
                            PList [PDict [(''filter'', PDict [(''a'', PInt 1)])],
                                   PDict [(''filter'', PStr ''x'')]])]])]"

definition example_metadata_db :: pyval where
  "example_metadata_db =
     PDict [(''slots'',
             PList [PDict [(''displayScopes'',
                            PList [PDict [(''filter'', PStr (json_dumps (PDict [(''a'', PInt 1)])))],
                                   PDict [(''filter'', PStr ''x'')]])]])]"

definition example_setting :: "(unit, unit, unit) BaseSetting" where
  "example_setting =
     \<lparr> default_value = PNone, name = PStr ''flag1'', value = PBool True,
       value_type = PStr ''boolean'', scope = example_scope, metadata = example_metadata,
       setting_type = PStr ''feature_flag'', client_api = (), project = (), org = (),
       id = PNone, settings = ((), (), ()) \<rparr>"

definition example_json :: pydict where
  "example_json =
     [(''name'', PStr ''flag1''), (''valueType'', PStr ''boolean''),
      (''scope'', PDict [(''type'', PStr ''project''), (''id'', PStr ''p1'')]),
      (''settingType'', PStr ''feature_flag''), (''id'', PNone),
      (''metadata'', example_metadata_db), (''value'', PBool True)]"

text \<open>
  The wire form of a setting that says it is a feature flag, the \<^verbatim>\<open>Setting\<close> that
  \<^verbatim>\<open>Setting.from_json\<close> builds from it, and the dictionary that this entity serializes
  to.
\<close>

definition example_ui_json :: pydict where
  "example_ui_json =
     [(''name'', PStr ''theme''), (''value'', PStr ''dark''), (''valueType'', PStr ''select''),
      (''settingType'', PStr ''feature_flag''),
      (''scope'', PDict [(''type'', PStr ''user''), (''id'', PStr ''u1'')]),
      (''description'', PStr ''Colour theme''), (''sectionName'', PStr ''Account''),
      (''id'', PStr ''s1'')]"

definition example_ui_setting :: "(unit, unit, unit) Setting" where
  "example_ui_setting =
     \<lparr> default_value = PNone, name = PStr ''theme'', value = PStr ''dark'',
       value_type = PStr ''select'',
       scope = \<lparr> type = PStr ''user'', SettingScope.id = PStr ''u1'', role = PNone,
                 prevent_override = PNone, visible = PNone \<rparr>,
       metadata = PNone, setting_type = PStr ''user_settings'', client_api = (),
       project = (), org = (), id = PStr ''s1'', settings = ((), (), ()),
       description = PStr ''Colour theme'', inputs = PNone, icon = PNone,
       section_name = PStr ''Account'', hint = PNone, sub_section_name = PNone \<rparr>"

definition example_ui_base_out :: pydict where
  "example_ui_base_out =
     [(''name'', PStr ''theme''), (''valueType'', PStr ''select''),
      (''scope'', PDict [(''type'', PStr ''user''), (''id'', PStr ''u1'')]),
      (''settingType'', PStr ''user_settings''), (''id'', PStr ''s1''),
      (''value'', PStr ''dark'')]"

definition example_ui_out :: pydict where
  "example_ui_out =
     example_ui_base_out @
     [(''description'', PStr ''Colour theme''), (''sectionName'', PStr ''Account'')]"

section \<open>Dictionaries and loops\<close>

lemma map_of_py_setitem: "map_of (py_setitem d k v) = (map_of d)(k \<mapsto> v)"
  by (simp add: py_setitem_def update_conv')

lemma py_get_py_setitem: "py_get (py_setitem d k v) k' = (if k' = k then v else py_get d k')"
  by (simp add: py_get_def map_of_py_setitem)

lemma keys_py_setitem: "fst ` set (py_setitem d k v) = insert k (fst ` set d)"
  by (simp add: py_setitem_def dom_update)

lemma py_setitem_same: "map_of d k = Some v \<Longrightarrow> py_setitem d k v = d"
  by (simp add: py_setitem_def update_triv)

lemma is_dict_conv: "is_dict v = (\<exists>d. v = PDict d)"
  by (cases v) auto

lemma for_each_length: "for_each f xs = Inr ys \<Longrightarrow> length ys = length xs"
  by (induction xs arbitrary: ys) (auto split: sum.splits)

lemma for_each_nth: "for_each f xs = Inr ys \<Longrightarrow> i < length xs \<Longrightarrow> f (xs ! i) = Inr (ys ! i)"
proof (induction xs arbitrary: ys i)
  case Nil
  then show ?case by simp
next
  case (Cons x xs)
  then show ?case by (cases i) (auto split: sum.splits)
qed

lemma for_each_fixed: "list_all (\<lambda>x. f x = Inr x) xs \<Longrightarrow> for_each f xs = Inr xs"
  by (induction xs) auto

lemma for_each_returns:
  "list_all (\<lambda>x. \<exists>y. f x = Inr y) xs \<Longrightarrow> \<exists>ys. for_each f xs = Inr ys"
  by (induction xs) auto

lemma for_each_again:
  assumes "for_each f xs = Inr ys" and "\<And>x y. f x = Inr y \<Longrightarrow> f y = Inr y"
  shows "for_each f ys = Inr ys"
  using assms(1)
proof (induction xs arbitrary: ys)
  case Nil
  then show ?case by simp
next
  case (Cons x xs)
  then show ?case by (auto split: sum.splits simp: assms(2))
qed

section \<open>SettingScope: the keys of the serialization\<close>

lemma truthy_conv:
  "truthy v = (v \<notin> {PNone, PBool False, PInt 0, PStr [], PList [], PDict []})"
  by (cases v) auto

text \<open>
  Claim C5. The dictionary that \<^verbatim>\<open>SettingScope.to_json\<close> returns has no key but
  \<^verbatim>\<open>type\<close>, \<^verbatim>\<open>id\<close>, \<^verbatim>\<open>role\<close>, \<^verbatim>\<open>preventOverride\<close> and \<^verbatim>\<open>visible\<close>. Each of them is
  absent when its field is \<^verbatim>\<open>None\<close>, \<^verbatim>\<open>False\<close>, zero, the empty string, the empty
  list or the empty dictionary, and is present with the value of the field for every
  other value.
\<close>

theorem SettingScope_to_json_truthy_keys:
  "map_of (SettingScope_to_json s) ''type'' =
     (if type s \<in> {PNone, PBool False, PInt 0, PStr [], PList [], PDict []}
      then None else Some (type s)) \<and>
   map_of (SettingScope_to_json s) ''id'' =
     (if SettingScope.id s \<in> {PNone, PBool False, PInt 0, PStr [], PList [], PDict []}
      then None else Some (SettingScope.id s)) \<and>
   map_of (SettingScope_to_json s) ''role'' =
     (if role s \<in> {PNone, PBool False, PInt 0, PStr [], PList [], PDict []}
      then None else Some (role s)) \<and>
   map_of (SettingScope_to_json s) ''preventOverride'' =
     (if prevent_override s \<in> {PNone, PBool False, PInt 0, PStr [], PList [], PDict []}
      then None else Some (prevent_override s)) \<and>
   map_of (SettingScope_to_json s) ''visible'' =
     (if visible s \<in> {PNone, PBool False, PInt 0, PStr [], PList [], PDict []}
      then None else Some (visible s)) \<and>
   fst ` set (SettingScope_to_json s)
     \<subseteq> {''type'', ''id'', ''role'', ''preventOverride'', ''visible''}"
proof -
  have t: "truthy v = (v \<notin> {PNone, PBool False, PInt 0, PStr [], PList [], PDict []})" for v
    by (rule truthy_conv)
  have "map_of (SettingScope_to_json s) ''type'' = (if truthy (type s) then Some (type s) else None) \<and>
        map_of (SettingScope_to_json s) ''id'' =
          (if truthy (SettingScope.id s) then Some (SettingScope.id s) else None) \<and>
        map_of (SettingScope_to_json s) ''role'' = (if truthy (role s) then Some (role s) else None) \<and>
        map_of (SettingScope_to_json s) ''preventOverride'' =
          (if truthy (prevent_override s) then Some (prevent_override s) else None) \<and>
        map_of (SettingScope_to_json s) ''visible'' =
          (if truthy (visible s) then Some (visible s) else None) \<and>
        fst ` set (SettingScope_to_json s)
          \<subseteq> {''type'', ''id'', ''role'', ''preventOverride'', ''visible''}"
    by (simp add: SettingScope_to_json_def Let_def map_of_py_setitem keys_py_setitem)
  then show ?thesis unfolding t by simp
qed

theorem SettingScope_to_json_truthy_keys_witness:
  "SettingScope_to_json
     \<lparr> type = PStr [], SettingScope.id = PInt 0, role = PList [],
       prevent_override = PBool False, visible = PNone \<rparr> = [] \<and>
   map_of (SettingScope_to_json
             \<lparr> type = PStr [], SettingScope.id = PInt 0, role = PList [],
               prevent_override = PBool False, visible = PNone \<rparr>) ''preventOverride'' = None \<and>
   SettingScope_to_json
     \<lparr> type = PStr ''project'', SettingScope.id = PInt 7, role = PStr ''owner'',
       prevent_override = PBool True, visible = PList [PInt 0] \<rparr> =
     [(''type'', PStr ''project''), (''id'', PInt 7), (''role'', PStr ''owner''),
      (''preventOverride'', PBool True), (''visible'', PList [PInt 0])] \<and>
   map_of (SettingScope_to_json
             \<lparr> type = PStr ''project'', SettingScope.id = PInt 7, role = PStr ''owner'',
               prevent_override = PBool True, visible = PList [PInt 0] \<rparr>) ''visible'' =
     Some (PList [PInt 0])"
  using SettingScope_to_json_truthy_keys
          [of "\<lparr> type = PStr [], SettingScope.id = PInt 0, role = PList [],
                 prevent_override = PBool False, visible = PNone \<rparr>"]
        SettingScope_to_json_truthy_keys
          [of "\<lparr> type = PStr ''project'', SettingScope.id = PInt 7, role = PStr ''owner'',
                 prevent_override = PBool True, visible = PList [PInt 0] \<rparr>"]
  by (simp add: SettingScope_to_json_def py_setitem_def)

section \<open>BaseSetting: construction\<close>

text \<open>
  Claim C3. The constructor of \<^verbatim>\<open>BaseSetting\<close> raises its validation exception when
  \<^verbatim>\<open>value\<close> and \<^verbatim>\<open>default_value\<close> are both \<^verbatim>\<open>None\<close>, whatever the other arguments are;
  when one of the two is not \<^verbatim>\<open>None\<close> it returns the entity that holds every argument
  as it was given.
\<close>

theorem BaseSetting_init_validation:
  "BaseSetting_init PNone PNone n vt sc md st i c p og = Inl ValidationError \<and>
   (v \<noteq> PNone \<or> dv \<noteq> PNone \<longrightarrow>
      BaseSetting_init dv v n vt sc md st i c p og =
        Inr \<lparr> default_value = dv, name = n, value = v, value_type = vt, scope = sc,
              metadata = md, setting_type = st, client_api = c, project = p, org = og,
              id = i, settings = (c, p, og) \<rparr>)"
  by (simp add: BaseSetting_init_def)

theorem BaseSetting_init_validation_witness:
  "BaseSetting_init PNone PNone (PStr ''flag1'') (PStr ''boolean'')
       \<lparr> type = PStr ''project'', SettingScope.id = PStr ''p1'', role = PNone,
         prevent_override = PNone, visible = PNone \<rparr>
       (PInt 7) (PStr ''feature_flag'') PNone () () () = Inl ValidationError \<and>
   BaseSetting_init PNone (PBool False) (PStr ''flag1'') (PStr ''boolean'')
       \<lparr> type = PStr ''project'', SettingScope.id = PStr ''p1'', role = PNone,
         prevent_override = PNone, visible = PNone \<rparr>
       (PInt 7) (PStr ''feature_flag'') PNone () () () =
     Inr \<lparr> default_value = PNone, name = PStr ''flag1'', value = PBool False,
           value_type = PStr ''boolean'',
           scope = \<lparr> type = PStr ''project'', SettingScope.id = PStr ''p1'', role = PNone,
                     prevent_override = PNone, visible = PNone \<rparr>,
           metadata = PInt 7, setting_type = PStr ''feature_flag'', client_api = (),
           project = (), org = (), id = PNone, settings = ((), (), ()) \<rparr>"
  using BaseSetting_init_validation
    [of "PStr ''flag1''" "PStr ''boolean''"
        "\<lparr> type = PStr ''project'', SettingScope.id = PStr ''p1'', role = PNone,
           prevent_override = PNone, visible = PNone \<rparr>"
        "PInt 7" "PStr ''feature_flag''" PNone "()" "()" "()" "PBool False" PNone]
  by simp

section \<open>UserSetting: the deprecated alias\<close>


section \<open>The normalisation of the metadata\<close>

text \<open>
  What lines 138 to 150 do to a display scope, to a slot and to the metadata, case by
  case, and that running them a second time changes nothing more.
\<close>

lemma display_scope_to_db_dict:
  "display_scope_to_db dumps (PDict d) =
     Inr (case map_of d ''filter'' of
            None \<Rightarrow> PDict d
          | Some f \<Rightarrow> if is_dict f then PDict (py_setitem d ''filter'' (PStr (dumps f)))
                      else PDict d)"
  by (simp add: display_scope_to_db_def split: option.splits)

lemma display_scope_to_db_other:
  "display_scope_to_db dumps ds = Inr ds' \<Longrightarrow> \<not> is_dict ds \<Longrightarrow> ds' = ds"
  by (cases ds) (auto simp: display_scope_to_db_def split: sum.splits bool.splits if_splits)

lemma display_scope_to_db_again:
  assumes "display_scope_to_db dumps ds = Inr ds'"
  shows "display_scope_to_db dumps ds' = Inr ds'"
proof (cases "is_dict ds")
  case True
  then obtain d where "ds = PDict d" by (auto simp: is_dict_conv)
  with assms show ?thesis
    by (auto simp: display_scope_to_db_dict map_of_py_setitem split: option.splits if_splits)
next
  case False
  with assms have "ds' = ds" by (rule display_scope_to_db_other)
  with assms show ?thesis by simp
qed

lemma display_scope_to_db_filter:
  assumes "display_scope_to_db dumps ds = Inr ds'"
  shows "filter_of ds' = map_option (to_db_filter dumps) (filter_of ds)"
proof (cases "is_dict ds")
  case True
  then obtain d where "ds = PDict d" by (auto simp: is_dict_conv)
  with assms show ?thesis
    by (auto simp: display_scope_to_db_dict map_of_py_setitem filter_of_def to_db_filter_def
             split: option.splits if_splits)
next
  case False
  with assms have "ds' = ds" by (rule display_scope_to_db_other)
  with False show ?thesis by (cases ds) (auto simp: filter_of_def)
qed

lemma display_scope_to_db_returns: "is_dict ds \<Longrightarrow> \<exists>ds'. display_scope_to_db dumps ds = Inr ds'"
  by (auto simp: is_dict_conv display_scope_to_db_dict)

lemma slot_to_db_slot_dict:
  "slot_to_db_slot dumps (PDict d) =
     (case map_of d ''displayScopes'' of
        None \<Rightarrow> Inr (PDict d)
      | Some scopes \<Rightarrow>
          if truthy scopes
          then (case py_iter scopes of
                  Inl e \<Rightarrow> Inl e
                | Inr xs \<Rightarrow>
                    (case for_each (display_scope_to_db dumps) xs of
                       Inl e \<Rightarrow> Inl e
                     | Inr ys \<Rightarrow>
                         (case scopes of
                            PList zs \<Rightarrow> Inr (PDict (py_setitem d ''displayScopes'' (PList ys)))
                          | _ \<Rightarrow> Inr (PDict d))))
          else Inr (PDict d))"
  by (simp add: slot_to_db_slot_def split: option.splits sum.splits pyval.splits)

lemma slot_to_db_slot_other:
  "slot_to_db_slot dumps slot = Inr slot' \<Longrightarrow> \<not> is_dict slot \<Longrightarrow> slot' = slot"
  by (cases slot) (auto simp: slot_to_db_slot_def split: sum.splits bool.splits if_splits)

lemma scopes_of_dict:
  "scopes_of (PDict d) = (case map_of d ''displayScopes'' of Some (PList xs) \<Rightarrow> Some xs | _ \<Rightarrow> None)"
  by (simp add: scopes_of_def)

lemma scopes_of_other: "\<not> is_dict slot \<Longrightarrow> scopes_of slot = None"
  by (cases slot) (auto simp: scopes_of_def)

lemma slot_to_db_slot_scopes:
  assumes "slot_to_db_slot dumps slot = Inr slot'"
  shows "case scopes_of slot of
           None \<Rightarrow> slot' = slot
         | Some xs \<Rightarrow> (\<exists>ys. for_each (display_scope_to_db dumps) xs = Inr ys \<and>
                           scopes_of slot' = Some ys)"
proof (cases "is_dict slot")
  case False
  with assms have "slot' = slot" by (rule slot_to_db_slot_other)
  with False show ?thesis by (simp add: scopes_of_other)
next
  case True
  then obtain d where d: "slot = PDict d" by (auto simp: is_dict_conv)
  show ?thesis
  proof (cases "map_of d ''displayScopes''")
    case None
    with assms d show ?thesis by (auto simp: slot_to_db_slot_dict scopes_of_dict)
  next
    case (Some scopes)
    show ?thesis
    proof (cases "is_list scopes")
      case True
      then obtain xs where xs: "scopes = PList xs" by (cases scopes) auto
      show ?thesis
      proof (cases "xs = []")
        case True
        with assms d Some xs show ?thesis by (auto simp: slot_to_db_slot_dict scopes_of_dict)
      next
        case False
        with assms d Some xs show ?thesis
          by (auto simp: slot_to_db_slot_dict scopes_of_dict map_of_py_setitem split: sum.splits)
      qed
    next
      case False
      with assms d Some show ?thesis
        by (cases scopes)
           (auto simp: slot_to_db_slot_dict scopes_of_dict split: sum.splits if_splits)
    qed
  qed
qed


lemma slot_to_db_slot_cases:
  assumes "slot_to_db_slot dumps slot = Inr slot'"
  shows "slot' = slot \<or>
         (\<exists>d xs ys. slot = PDict d \<and> map_of d ''displayScopes'' = Some (PList xs) \<and> xs \<noteq> [] \<and>
            for_each (display_scope_to_db dumps) xs = Inr ys \<and>
            slot' = PDict (py_setitem d ''displayScopes'' (PList ys)))"
proof (cases "is_dict slot")
  case False
  with assms show ?thesis by (simp add: slot_to_db_slot_other)
next
  case True
  then obtain d where d: "slot = PDict d" by (auto simp: is_dict_conv)
  show ?thesis
  proof (cases "map_of d ''displayScopes''")
    case None
    with assms d show ?thesis by (auto simp: slot_to_db_slot_dict)
  next
    case (Some scopes)
    with assms d show ?thesis
      by (cases scopes) (auto simp: slot_to_db_slot_dict split: sum.splits if_splits)
  qed
qed

lemma py_setitem_twice: "py_setitem (py_setitem d k v) k v = py_setitem d k v"
  by (simp add: py_setitem_def)

lemma slot_to_db_slot_again:
  assumes "slot_to_db_slot dumps slot = Inr slot'"
  shows "slot_to_db_slot dumps slot' = Inr slot'"
  using slot_to_db_slot_cases [OF assms]
proof
  assume "slot' = slot"
  with assms show ?thesis by simp
next
  assume "\<exists>d xs ys. slot = PDict d \<and> map_of d ''displayScopes'' = Some (PList xs) \<and> xs \<noteq> [] \<and>
            for_each (display_scope_to_db dumps) xs = Inr ys \<and>
            slot' = PDict (py_setitem d ''displayScopes'' (PList ys))"
  then obtain d xs ys where xs: "xs \<noteq> []"
    and ys: "for_each (display_scope_to_db dumps) xs = Inr ys"
    and slot': "slot' = PDict (py_setitem d ''displayScopes'' (PList ys))"
    by blast
  from ys have "length ys = length xs" by (rule for_each_length)
  with xs have ne: "ys \<noteq> []" by auto
  from ys have again: "for_each (display_scope_to_db dumps) ys = Inr ys"
    by (rule for_each_again) (rule display_scope_to_db_again)
  from ne again show ?thesis
    by (simp add: slot' slot_to_db_slot_dict map_of_py_setitem py_setitem_twice)
qed

lemma metadata_to_db_cases:
  assumes "metadata_to_db dumps m = Inr m'"
  shows "m' = m \<or>
         (\<exists>d xs ys. m = PDict d \<and> map_of d ''slots'' = Some (PList xs) \<and>
            for_each (slot_to_db_slot dumps) xs = Inr ys \<and>
            m' = PDict (py_setitem d ''slots'' (PList ys)))"
proof (cases m)
  case (PDict d)
  show ?thesis
  proof (cases "map_of d ''slots''")
    case None
    with assms PDict show ?thesis by (auto simp: metadata_to_db_def)
  next
    case (Some slots)
    with assms PDict show ?thesis
      by (cases slots) (auto simp: metadata_to_db_def split: sum.splits)
  qed
qed (use assms in \<open>auto simp: metadata_to_db_def split: sum.splits bool.splits if_splits\<close>)

lemma metadata_to_db_dict:
  "metadata_to_db dumps (PDict d) =
     (case map_of d ''slots'' of
        Some (PList xs) \<Rightarrow>
          (case for_each (slot_to_db_slot dumps) xs of
             Inl e \<Rightarrow> Inl e
           | Inr ys \<Rightarrow> Inr (PDict (py_setitem d ''slots'' (PList ys))))
      | _ \<Rightarrow> Inr (PDict d))"
  by (simp add: metadata_to_db_def split: option.splits pyval.splits)

lemma metadata_to_db_again:
  assumes "metadata_to_db dumps m = Inr m'"
  shows "metadata_to_db dumps m' = Inr m'"
  using metadata_to_db_cases [OF assms]
proof
  assume "m' = m"
  with assms show ?thesis by simp
next
  assume "\<exists>d xs ys. m = PDict d \<and> map_of d ''slots'' = Some (PList xs) \<and>
            for_each (slot_to_db_slot dumps) xs = Inr ys \<and>
            m' = PDict (py_setitem d ''slots'' (PList ys))"
  then obtain d xs ys where ys: "for_each (slot_to_db_slot dumps) xs = Inr ys"
    and m': "m' = PDict (py_setitem d ''slots'' (PList ys))"
    by blast
  from ys have "for_each (slot_to_db_slot dumps) ys = Inr ys"
    by (rule for_each_again) (rule slot_to_db_slot_again)
  then show ?thesis
    by (simp add: m' metadata_to_db_dict map_of_py_setitem py_setitem_twice)
qed

lemma metadata_to_db_None: "metadata_to_db dumps m = Inr m' \<Longrightarrow> (m' = PNone) = (m = PNone)"
  by (drule metadata_to_db_cases) auto

text \<open>
  The filter at the end of every path after the normalisation, and that the
  normalisation returns on every metadata of the shape of the wire format.
\<close>

lemma slots_of_dict:
  "slots_of (PDict d) = (case map_of d ''slots'' of Some (PList xs) \<Rightarrow> Some xs | _ \<Rightarrow> None)"
  by (simp add: slots_of_def)

lemma metadata_to_db_slots:
  assumes "metadata_to_db dumps m = Inr m'"
  shows "case slots_of m of
           None \<Rightarrow> m' = m
         | Some xs \<Rightarrow> (\<exists>ys. for_each (slot_to_db_slot dumps) xs = Inr ys \<and> slots_of m' = Some ys)"
proof (cases m)
  case (PDict d)
  show ?thesis
  proof (cases "map_of d ''slots''")
    case None
    with assms PDict show ?thesis by (auto simp: metadata_to_db_dict slots_of_dict)
  next
    case (Some slots)
    with assms PDict show ?thesis
      by (cases slots)
         (auto simp: metadata_to_db_dict slots_of_dict map_of_py_setitem split: sum.splits)
  qed
qed (use assms in \<open>auto simp: metadata_to_db_def slots_of_def split: sum.splits bool.splits if_splits\<close>)

lemma scopes_at_to_db:
  assumes "slot_to_db_slot dumps slot = Inr slot'"
  shows "(case scopes_of slot' of None \<Rightarrow> None
          | Some ys \<Rightarrow> if k < length ys then filter_of (ys ! k) else None) =
         map_option (to_db_filter dumps)
           (case scopes_of slot of None \<Rightarrow> None
            | Some xs \<Rightarrow> if k < length xs then filter_of (xs ! k) else None)"
proof (cases "scopes_of slot")
  case None
  with slot_to_db_slot_scopes [OF assms] show ?thesis by simp
next
  case (Some xs)
  with slot_to_db_slot_scopes [OF assms] obtain ys
    where ys: "for_each (display_scope_to_db dumps) xs = Inr ys" and s': "scopes_of slot' = Some ys"
    by auto
  from ys have len: "length ys = length xs" by (rule for_each_length)
  show ?thesis
  proof (cases "k < length xs")
    case True
    with ys have "display_scope_to_db dumps (xs ! k) = Inr (ys ! k)" by (rule for_each_nth)
    then have "filter_of (ys ! k) = map_option (to_db_filter dumps) (filter_of (xs ! k))"
      by (rule display_scope_to_db_filter)
    with True len Some s' show ?thesis by simp
  next
    case False
    with len Some s' show ?thesis by simp
  qed
qed

lemma metadata_to_db_filter_at:
  assumes "metadata_to_db dumps m = Inr m'"
  shows "filter_at m' i k = map_option (to_db_filter dumps) (filter_at m i k)"
proof (cases "slots_of m")
  case None
  with metadata_to_db_slots [OF assms] show ?thesis by (simp add: filter_at_def)
next
  case (Some xs)
  with metadata_to_db_slots [OF assms] obtain ys
    where ys: "for_each (slot_to_db_slot dumps) xs = Inr ys" and m': "slots_of m' = Some ys"
    by auto
  from ys have len: "length ys = length xs" by (rule for_each_length)
  show ?thesis
  proof (cases "i < length xs")
    case True
    with ys have "slot_to_db_slot dumps (xs ! i) = Inr (ys ! i)" by (rule for_each_nth)
    from scopes_at_to_db [OF this, of k] True len Some m' show ?thesis
      by (simp add: filter_at_def)
  next
    case False
    with len Some m' show ?thesis by (simp add: filter_at_def)
  qed
qed

lemma wire_slot_returns: "wire_slot slot \<Longrightarrow> \<exists>slot'. slot_to_db_slot dumps slot = Inr slot'"
proof (cases slot)
  case (PDict d)
  assume w: "wire_slot slot"
  show ?thesis
  proof (cases "map_of d ''displayScopes''")
    case None
    with PDict show ?thesis by (simp add: slot_to_db_slot_dict)
  next
    case (Some scopes)
    show ?thesis
    proof (cases "truthy scopes")
      case False
      with PDict Some show ?thesis by (simp add: slot_to_db_slot_dict)
    next
      case True
      with w PDict Some obtain xs where xs: "scopes = PList xs" and all: "list_all is_dict xs"
        by (auto simp: wire_slot_def split: pyval.splits)
      from all have "list_all (\<lambda>x. \<exists>y. display_scope_to_db dumps x = Inr y) xs"
        by (auto simp: list_all_iff dest: display_scope_to_db_returns)
      then obtain ys where "for_each (display_scope_to_db dumps) xs = Inr ys"
        using for_each_returns by blast
      with PDict Some xs True show ?thesis by (simp add: slot_to_db_slot_dict)
    qed
  qed
qed (auto simp: wire_slot_def)

lemma wire_metadata_returns:
  assumes "wire_metadata m"
  shows "\<exists>m'. metadata_to_db dumps m = Inr m'"
proof (cases m)
  case PNone
  then show ?thesis by (simp add: metadata_to_db_def)
next
  case (PDict d)
  show ?thesis
  proof (cases "\<exists>xs. map_of d ''slots'' = Some (PList xs)")
    case False
    with PDict show ?thesis by (auto simp: metadata_to_db_dict split: option.splits pyval.splits)
  next
    case True
    then obtain xs where xs: "map_of d ''slots'' = Some (PList xs)" by blast
    with assms PDict have "list_all wire_slot xs" by (simp add: wire_metadata_def)
    then have "list_all (\<lambda>x. \<exists>y. slot_to_db_slot dumps x = Inr y) xs"
      by (auto simp: list_all_iff dest: wire_slot_returns)
    then obtain ys where "for_each (slot_to_db_slot dumps) xs = Inr ys"
      using for_each_returns by blast
    with PDict xs show ?thesis by (simp add: metadata_to_db_dict)
  qed
qed (use assms in \<open>auto simp: wire_metadata_def\<close>)

section \<open>BaseSetting: the keys of the serialization\<close>

lemma BaseSetting_to_json_eq:
  "BaseSetting_to_json dumps s =
     (case metadata_to_db dumps (metadata s) of
        Inl e \<Rightarrow> Inl e
      | Inr m \<Rightarrow>
          Inr (let j = [(''name'', name s), (''valueType'', value_type s),
                        (''scope'', PDict (SettingScope_to_json (scope s))),
                        (''settingType'', setting_type s), (''id'', id s)];
                   j = (if m \<noteq> PNone then py_setitem j ''metadata'' m else j);
                   j = (if value s \<noteq> PNone then py_setitem j ''value'' (value s) else j);
                   j = (if default_value s \<noteq> PNone
                        then py_setitem j ''defaultValue'' (default_value s) else j)
               in j, s\<lparr>metadata := m\<rparr>))"
  by (simp add: BaseSetting_to_json_def Let_def split: sum.splits cong: if_cong)

lemma BaseSetting_to_json_Inr:
  assumes "BaseSetting_to_json dumps s = Inr (j, s')"
  obtains m where "metadata_to_db dumps (metadata s) = Inr m"
    and "s' = s\<lparr>metadata := m\<rparr>"
    and "j = (let j = [(''name'', name s), (''valueType'', value_type s),
                       (''scope'', PDict (SettingScope_to_json (scope s))),
                       (''settingType'', setting_type s), (''id'', id s)];
                  j = (if m \<noteq> PNone then py_setitem j ''metadata'' m else j);
                  j = (if value s \<noteq> PNone then py_setitem j ''value'' (value s) else j);
                  j = (if default_value s \<noteq> PNone
                       then py_setitem j ''defaultValue'' (default_value s) else j)
              in j)"
  using assms unfolding BaseSetting_to_json_eq by (auto split: sum.splits)

lemma BaseSetting_to_json_returns:
  "metadata_to_db dumps (metadata s) = Inr m \<Longrightarrow>
     \<exists>j. BaseSetting_to_json dumps s = Inr (j, s\<lparr>metadata := m\<rparr>)"
  by (simp add: BaseSetting_to_json_eq)

text \<open>
  Claim C2. Whenever \<^verbatim>\<open>BaseSetting.to_json\<close> returns, the dictionary holds \<^verbatim>\<open>name\<close>,
  \<^verbatim>\<open>valueType\<close>, \<^verbatim>\<open>scope\<close> (the serialization of the scope), \<^verbatim>\<open>settingType\<close> and
  \<^verbatim>\<open>id\<close> with the values of the fields, \<^verbatim>\<open>id\<close> also when it is \<^verbatim>\<open>None\<close>; it holds
  \<^verbatim>\<open>metadata\<close>, \<^verbatim>\<open>value\<close> and \<^verbatim>\<open>defaultValue\<close> exactly when the field is not \<^verbatim>\<open>None\<close>;
  and it holds no other key. It returns on every metadata of the shape of the wire
  format. On the input of the specification's example, \<^verbatim>\<open>from_json\<close> followed by
  \<^verbatim>\<open>to_json\<close> returns exactly the dictionary of the example.
\<close>

theorem BaseSetting_to_json_keys:
  "(BaseSetting_to_json dumps s = Inr (j, s') \<longrightarrow>
      map_of j ''name'' = Some (name s) \<and>
      map_of j ''valueType'' = Some (value_type s) \<and>
      map_of j ''scope'' = Some (PDict (SettingScope_to_json (scope s))) \<and>
      map_of j ''settingType'' = Some (setting_type s) \<and>
      map_of j ''id'' = Some (id s) \<and>
      map_of j ''metadata'' = (if metadata s = PNone then None else Some (metadata s')) \<and>
      map_of j ''value'' = (if value s = PNone then None else Some (value s)) \<and>
      map_of j ''defaultValue'' =
        (if default_value s = PNone then None else Some (default_value s)) \<and>
      fst ` set j \<subseteq> {''name'', ''valueType'', ''scope'', ''settingType'', ''id'', ''metadata'',
                      ''value'', ''defaultValue''}) \<and>
   (wire_metadata (metadata s) \<longrightarrow> (\<exists>j' s''. BaseSetting_to_json dumps s = Inr (j', s''))) \<and>
   (case BaseSetting_from_json
           [(''name'', PStr ''flag1''), (''value'', PBool True), (''valueType'', PStr ''boolean''),
            (''settingType'', PStr ''feature_flag''),
            (''scope'', PDict [(''type'', PStr ''project''), (''id'', PStr ''p1'')])]
           c p og of
      Inl e \<Rightarrow> Inl e
    | Inr s0 \<Rightarrow> (case BaseSetting_to_json dumps s0 of Inl e \<Rightarrow> Inl e | Inr (j0, s1) \<Rightarrow> Inr j0)) =
     Inr [(''name'', PStr ''flag1''), (''valueType'', PStr ''boolean''),
          (''scope'', PDict [(''type'', PStr ''project''), (''id'', PStr ''p1'')]),
          (''settingType'', PStr ''feature_flag''), (''id'', PNone), (''value'', PBool True)]"
proof (intro conjI impI)
  assume r: "BaseSetting_to_json dumps s = Inr (j, s')"
  then obtain m where m: "metadata_to_db dumps (metadata s) = Inr m"
    and s': "s' = s\<lparr>metadata := m\<rparr>"
    and j: "j = (let j = [(''name'', name s), (''valueType'', value_type s),
                       (''scope'', PDict (SettingScope_to_json (scope s))),
                       (''settingType'', setting_type s), (''id'', id s)];
                  j = (if m \<noteq> PNone then py_setitem j ''metadata'' m else j);
                  j = (if value s \<noteq> PNone then py_setitem j ''value'' (value s) else j);
                  j = (if default_value s \<noteq> PNone
                       then py_setitem j ''defaultValue'' (default_value s) else j)
              in j)"
    by (rule BaseSetting_to_json_Inr)
  from m have n: "(m = PNone) = (metadata s = PNone)" by (rule metadata_to_db_None)
  show "map_of j ''name'' = Some (name s)" by (simp add: j Let_def map_of_py_setitem)
  show "map_of j ''valueType'' = Some (value_type s)" by (simp add: j Let_def map_of_py_setitem)
  show "map_of j ''scope'' = Some (PDict (SettingScope_to_json (scope s)))"
    by (simp add: j Let_def map_of_py_setitem)
  show "map_of j ''settingType'' = Some (setting_type s)" by (simp add: j Let_def map_of_py_setitem)
  show "map_of j ''id'' = Some (id s)" by (simp add: j Let_def map_of_py_setitem)
  show "map_of j ''metadata'' = (if metadata s = PNone then None else Some (metadata s'))"
    using n by (simp add: j s' Let_def map_of_py_setitem)
  show "map_of j ''value'' = (if value s = PNone then None else Some (value s))"
    by (simp add: j Let_def map_of_py_setitem)
  show "map_of j ''defaultValue'' = (if default_value s = PNone then None else Some (default_value s))"
    by (simp add: j Let_def map_of_py_setitem)
  show "fst ` set j \<subseteq> {''name'', ''valueType'', ''scope'', ''settingType'', ''id'', ''metadata'',
                      ''value'', ''defaultValue''}"
    by (simp add: j Let_def keys_py_setitem)
next
  assume "wire_metadata (metadata s)"
  then obtain m where "metadata_to_db dumps (metadata s) = Inr m"
    using wire_metadata_returns by blast
  then show "\<exists>j' s''. BaseSetting_to_json dumps s = Inr (j', s'')"
    using BaseSetting_to_json_returns by blast
next
  show "(case BaseSetting_from_json
           [(''name'', PStr ''flag1''), (''value'', PBool True), (''valueType'', PStr ''boolean''),
            (''settingType'', PStr ''feature_flag''),
            (''scope'', PDict [(''type'', PStr ''project''), (''id'', PStr ''p1'')])]
           c p og of
      Inl e \<Rightarrow> Inl e
    | Inr s0 \<Rightarrow> (case BaseSetting_to_json dumps s0 of Inl e \<Rightarrow> Inl e | Inr (j0, s1) \<Rightarrow> Inr j0)) =
     Inr [(''name'', PStr ''flag1''), (''valueType'', PStr ''boolean''),
          (''scope'', PDict [(''type'', PStr ''project''), (''id'', PStr ''p1'')]),
          (''settingType'', PStr ''feature_flag''), (''id'', PNone), (''value'', PBool True)]"
    by (simp add: BaseSetting_from_json_def BaseSetting_init_def BaseSetting_to_json_def
          metadata_to_db_def SettingScope_to_json_def py_get_def py_setitem_def Let_def)
qed

lemma example_to_json:
  "BaseSetting_to_json json_dumps example_setting =
     Inr (example_json, example_setting\<lparr>metadata := example_metadata_db\<rparr>)"
  by code_simp

theorem BaseSetting_to_json_keys_witness:
  "BaseSetting_to_json json_dumps example_setting =
     Inr (example_json, example_setting\<lparr>metadata := example_metadata_db\<rparr>) \<and>
   map_of example_json ''id'' = Some PNone \<and>
   map_of example_json ''metadata'' = Some example_metadata_db \<and>
   map_of example_json ''value'' = Some (PBool True) \<and>
   map_of example_json ''defaultValue'' = None \<and>
   wire_metadata (metadata example_setting) \<and>
   (\<exists>j' s''. BaseSetting_to_json json_dumps example_setting = Inr (j', s''))"
proof -
  have w: "wire_metadata (metadata example_setting)" by code_simp
  have ne: "metadata example_setting \<noteq> PNone"
    by (simp add: example_setting_def example_metadata_def)
  have v: "value example_setting = PBool True" "default_value example_setting = PNone"
    "id example_setting = PNone"
    by (simp_all add: example_setting_def)
  from BaseSetting_to_json_keys
         [of json_dumps example_setting example_json
             "example_setting\<lparr>metadata := example_metadata_db\<rparr>" "()" "()" "()"]
       example_to_json w ne v
  show ?thesis by simp
qed

section \<open>BaseSetting: filters on the wire\<close>

text \<open>
  Claim C6. Whenever \<^verbatim>\<open>to_json\<close> returns, the filter found in the entity at
  \<^verbatim>\<open>metadata.slots[i].displayScopes[k].filter\<close> stands at the same path of the
  returned dictionary as the string that \<^verbatim>\<open>json.dumps\<close> gives for it when it is a
  mapping, and unchanged when it is anything else.
\<close>

theorem to_json_filter_string_encoded:
  assumes "BaseSetting_to_json dumps s = Inr (j, s')"
    and "filter_at (metadata s) i k = Some f"
  shows "filter_at (py_get j ''metadata'') i k = Some (if is_dict f then PStr (dumps f) else f)"
proof -
  from assms(1) obtain m where m: "metadata_to_db dumps (metadata s) = Inr m"
    and j: "j = (let j = [(''name'', name s), (''valueType'', value_type s),
                       (''scope'', PDict (SettingScope_to_json (scope s))),
                       (''settingType'', setting_type s), (''id'', id s)];
                  j = (if m \<noteq> PNone then py_setitem j ''metadata'' m else j);
                  j = (if value s \<noteq> PNone then py_setitem j ''value'' (value s) else j);
                  j = (if default_value s \<noteq> PNone
                       then py_setitem j ''defaultValue'' (default_value s) else j)
              in j)"
    by (rule BaseSetting_to_json_Inr)
  from m have fa: "filter_at m i k = map_option (to_db_filter dumps) (filter_at (metadata s) i k)"
    by (rule metadata_to_db_filter_at)
  with assms(2) have fm: "filter_at m i k = Some (to_db_filter dumps f)" by simp
  then have "m \<noteq> PNone" by (auto simp: filter_at_def slots_of_def)
  then have "py_get j ''metadata'' = m" by (simp add: j Let_def py_get_py_setitem)
  with fm show ?thesis by (simp add: to_db_filter_def)
qed

theorem to_json_filter_string_encoded_witness:
  "BaseSetting_to_json json_dumps example_setting =
     Inr (example_json, example_setting\<lparr>metadata := example_metadata_db\<rparr>) \<and>
   filter_at (metadata example_setting) 0 0 = Some (PDict [(''a'', PInt 1)]) \<and>
   filter_at (py_get example_json ''metadata'') 0 0 = Some (PStr ''{\"a\": 1}'') \<and>
   filter_at (metadata example_setting) 0 1 = Some (PStr ''x'') \<and>
   filter_at (py_get example_json ''metadata'') 0 1 = Some (PStr ''x'')"
proof -
  have a: "filter_at (metadata example_setting) 0 0 = Some (PDict [(''a'', PInt 1)])"
    by code_simp
  have b: "filter_at (metadata example_setting) 0 1 = Some (PStr ''x'')"
    by code_simp
  have d: "json_dumps (PDict [(''a'', PInt 1)]) = ''{\"a\": 1}''" by code_simp
  from to_json_filter_string_encoded [OF example_to_json a]
       to_json_filter_string_encoded [OF example_to_json b]
       example_to_json a b d
  show ?thesis by simp
qed

section \<open>BaseSetting: what a call of to_json leaves behind\<close>

lemma to_db_filter_not_dict: "\<not> is_dict (to_db_filter dumps f)"
  by (simp add: to_db_filter_def)

text \<open>
  Claim C10. A call of \<^verbatim>\<open>to_json\<close> that returns leaves every field of the entity but
  \<^verbatim>\<open>metadata\<close> as it was. In the metadata every filter at a path
  \<^verbatim>\<open>slots[i].displayScopes[k].filter\<close> that was a mapping is now its string encoding, so
  no filter at such a path is a mapping any more and the entity has changed whenever one
  was; when \<^verbatim>\<open>metadata.slots\<close> is not a list nothing changes. A second call returns the
  same dictionary and changes nothing more.
\<close>

theorem to_json_mutates_metadata_only:
  assumes "BaseSetting_to_json dumps s = Inr (j, s')"
  shows "s' = s\<lparr>metadata := metadata s'\<rparr> \<and>
         (\<forall>i k. filter_at (metadata s') i k =
                  (case filter_at (metadata s) i k of
                     None \<Rightarrow> None
                   | Some f \<Rightarrow> Some (if is_dict f then PStr (dumps f) else f))) \<and>
         (\<forall>i k f. filter_at (metadata s') i k = Some f \<longrightarrow> \<not> is_dict f) \<and>
         ((\<exists>i k f. filter_at (metadata s) i k = Some f \<and> is_dict f) \<longrightarrow> s' \<noteq> s) \<and>
         (slots_of (metadata s) = None \<longrightarrow> s' = s) \<and>
         BaseSetting_to_json dumps s' = Inr (j, s')"
proof -
  from assms obtain m where m: "metadata_to_db dumps (metadata s) = Inr m"
    and s': "s' = s\<lparr>metadata := m\<rparr>"
    by (rule BaseSetting_to_json_Inr)
  have fa: "filter_at m i k = map_option (to_db_filter dumps) (filter_at (metadata s) i k)" for i k
    using m by (rule metadata_to_db_filter_at)
  have 1: "s' = s\<lparr>metadata := metadata s'\<rparr>" by (simp add: s')
  have 2: "\<forall>i k. filter_at (metadata s') i k =
                  (case filter_at (metadata s) i k of
                     None \<Rightarrow> None
                   | Some f \<Rightarrow> Some (if is_dict f then PStr (dumps f) else f))"
    by (simp add: s' fa to_db_filter_def split: option.splits)
  have 3: "\<forall>i k f. filter_at (metadata s') i k = Some f \<longrightarrow> \<not> is_dict f"
    by (auto simp: s' fa to_db_filter_not_dict)
  have 4: "(\<exists>i k f. filter_at (metadata s) i k = Some f \<and> is_dict f) \<longrightarrow> s' \<noteq> s"
  proof (intro impI notI)
    assume "\<exists>i k f. filter_at (metadata s) i k = Some f \<and> is_dict f" and "s' = s"
    then obtain i k f where f: "filter_at (metadata s) i k = Some f" "is_dict f"
      and "metadata s' = metadata s" by auto
    with 3 show False by auto
  qed
  have 5: "slots_of (metadata s) = None \<longrightarrow> s' = s"
    using metadata_to_db_slots [OF m] by (auto simp: s')
  from m have "metadata_to_db dumps m = Inr m" by (rule metadata_to_db_again)
  with assms have 6: "BaseSetting_to_json dumps s' = Inr (j, s')"
    by (simp add: BaseSetting_to_json_eq s' m Let_def cong: if_cong)
  from 1 2 3 4 5 6 show ?thesis by blast
qed

theorem to_json_mutates_metadata_only_witness:
  "BaseSetting_to_json json_dumps example_setting =
     Inr (example_json, example_setting\<lparr>metadata := example_metadata_db\<rparr>) \<and>
   filter_at (metadata example_setting) 0 0 = Some (PDict [(''a'', PInt 1)]) \<and>
   filter_at example_metadata_db 0 0 = Some (PStr ''{\"a\": 1}'') \<and>
   example_setting\<lparr>metadata := example_metadata_db\<rparr> \<noteq> example_setting \<and>
   BaseSetting_to_json json_dumps (example_setting\<lparr>metadata := example_metadata_db\<rparr>) =
     Inr (example_json, example_setting\<lparr>metadata := example_metadata_db\<rparr>)"
proof -
  have a: "filter_at (metadata example_setting) 0 0 = Some (PDict [(''a'', PInt 1)])"
    by code_simp
  have b: "filter_at example_metadata_db 0 0 = Some (PStr ''{\"a\": 1}'')"
    by code_simp
  have c: "is_dict (PDict [(''a'', PInt 1)])" by simp
  from to_json_mutates_metadata_only [OF example_to_json] a b c example_to_json
  show ?thesis by blast
qed

section \<open>BaseSetting: the round trip through JSON\<close>

lemma py_get_Cons: "py_get ((k, v) # d) k' = (if k = k' then v else py_get d k')"
  by (simp add: py_get_def)

lemma py_get_Nil: "py_get [] k = PNone"
  by (simp add: py_get_def)

lemma SettingScope_roundtrip:
  "SettingScope_from_json (PDict (SettingScope_to_json sc)) =
     Inr \<lparr> type = (if truthy (type sc) then type sc else PNone),
           SettingScope.id = (if truthy (SettingScope.id sc) then SettingScope.id sc else PNone),
           role = (if truthy (role sc) then role sc else PNone),
           prevent_override = (if truthy (prevent_override sc) then prevent_override sc else PNone),
           visible = (if truthy (visible sc) then visible sc else PNone) \<rparr>"
  by (simp add: SettingScope_to_json_def Let_def py_get_py_setitem py_get_Nil)

lemma SettingScope_to_json_roundtrip:
  "SettingScope_to_json
     \<lparr> type = (if truthy (type sc) then type sc else PNone),
       SettingScope.id = (if truthy (SettingScope.id sc) then SettingScope.id sc else PNone),
       role = (if truthy (role sc) then role sc else PNone),
       prevent_override = (if truthy (prevent_override sc) then prevent_override sc else PNone),
       visible = (if truthy (visible sc) then visible sc else PNone) \<rparr> =
   SettingScope_to_json sc"
  by (simp add: SettingScope_to_json_def Let_def)


text \<open>
  Claim C1. For an entity that the constructor has built and on which \<^verbatim>\<open>to_json\<close>
  returns, \<^verbatim>\<open>from_json\<close> of the returned dictionary returns an entity whose own
  \<^verbatim>\<open>to_json\<close> returns that same dictionary. The entity read back is the serialized
  one in every field but the scope, where each field that was not truthy (also a field
  that was \<^verbatim>\<open>False\<close>) is now \<^verbatim>\<open>None\<close>: the round trip of the serialization is exact,
  that of the entity is not.
\<close>

theorem BaseSetting_json_roundtrip:
  assumes "BaseSetting_init dv v n vt sc md st i c p og = Inr x"
    and "BaseSetting_to_json dumps x = Inr (j, x1)"
  shows "\<exists>x'. BaseSetting_from_json j c p og = Inr x' \<and>
              BaseSetting_to_json dumps x' = Inr (j, x') \<and>
              x' = x1\<lparr>scope := scope x'\<rparr> \<and>
              scope x' =
                \<lparr> type = (if truthy (type sc) then type sc else PNone),
                  SettingScope.id =
                    (if truthy (SettingScope.id sc) then SettingScope.id sc else PNone),
                  role = (if truthy (role sc) then role sc else PNone),
                  prevent_override =
                    (if truthy (prevent_override sc) then prevent_override sc else PNone),
                  visible = (if truthy (visible sc) then visible sc else PNone) \<rparr>"
proof -
  from assms(1) have valid: "\<not> (v = PNone \<and> dv = PNone)"
    and x: "x = \<lparr> default_value = dv, name = n, value = v, value_type = vt, scope = sc,
                  metadata = md, setting_type = st, client_api = c, project = p, org = og,
                  id = i, settings = (c, p, og) \<rparr>"
    by (auto simp: BaseSetting_init_def split: if_splits)
  from assms(2) obtain m where m: "metadata_to_db dumps (metadata x) = Inr m"
    and x1: "x1 = x\<lparr>metadata := m\<rparr>"
    and j: "j = (let j = [(''name'', name x), (''valueType'', value_type x),
                       (''scope'', PDict (SettingScope_to_json (scope x))),
                       (''settingType'', setting_type x), (''id'', id x)];
                  j = (if m \<noteq> PNone then py_setitem j ''metadata'' m else j);
                  j = (if value x \<noteq> PNone then py_setitem j ''value'' (value x) else j);
                  j = (if default_value x \<noteq> PNone
                       then py_setitem j ''defaultValue'' (default_value x) else j)
              in j)"
    by (rule BaseSetting_to_json_Inr)
  define sc' where "sc' =
     \<lparr> type = (if truthy (type sc) then type sc else PNone),
       SettingScope.id = (if truthy (SettingScope.id sc) then SettingScope.id sc else PNone),
       role = (if truthy (role sc) then role sc else PNone),
       prevent_override = (if truthy (prevent_override sc) then prevent_override sc else PNone),
       visible = (if truthy (visible sc) then visible sc else PNone) \<rparr>"
  define x' where "x' = x1\<lparr>scope := sc'\<rparr>"
  have g: "py_get j ''scope'' = PDict (SettingScope_to_json sc)"
    "py_get j ''name'' = n" "py_get j ''valueType'' = vt" "py_get j ''settingType'' = st"
    "py_get j ''id'' = i" "py_get j ''metadata'' = m" "py_get j ''value'' = v"
    "py_get j ''defaultValue'' = dv"
    by (simp_all add: j x Let_def py_get_py_setitem py_get_Cons py_get_Nil)
  have sfj: "SettingScope_from_json (py_get j ''scope'') = Inr sc'"
    unfolding g(1) sc'_def by (rule SettingScope_roundtrip)
  have from_json: "BaseSetting_from_json j c p og = Inr x'"
    using valid
    by (simp add: BaseSetting_from_json_def sfj g(2-) BaseSetting_init_def x'_def x1 x)
  from m have again: "metadata_to_db dumps m = Inr m" by (rule metadata_to_db_again)
  have to_json: "BaseSetting_to_json dumps x' = Inr (j, x')"
    using again
    by (simp add: BaseSetting_to_json_eq x'_def x1 x j Let_def sc'_def
          SettingScope_to_json_roundtrip cong: if_cong)
  have "x' = x1\<lparr>scope := scope x'\<rparr>" by (simp add: x'_def)
  moreover have "scope x' = sc'" by (simp add: x'_def)
  ultimately show ?thesis using from_json to_json unfolding sc'_def by blast
qed


lemma example_init:
  "BaseSetting_init PNone (PBool True) (PStr ''flag1'') (PStr ''boolean'') example_scope
     example_metadata (PStr ''feature_flag'') PNone () () () = Inr example_setting"
  by (simp add: BaseSetting_init_def example_setting_def)

theorem BaseSetting_json_roundtrip_witness:
  "BaseSetting_init PNone (PBool True) (PStr ''flag1'') (PStr ''boolean'') example_scope
     example_metadata (PStr ''feature_flag'') PNone () () () = Inr example_setting \<and>
   BaseSetting_to_json json_dumps example_setting =
     Inr (example_json, example_setting\<lparr>metadata := example_metadata_db\<rparr>) \<and>
   BaseSetting_from_json example_json () () () =
     Inr (example_setting
            \<lparr>metadata := example_metadata_db,
             scope := example_scope\<lparr>prevent_override := PNone, visible := PNone\<rparr>\<rparr>) \<and>
   BaseSetting_to_json json_dumps
     (example_setting
        \<lparr>metadata := example_metadata_db,
         scope := example_scope\<lparr>prevent_override := PNone, visible := PNone\<rparr>\<rparr>) =
     Inr (example_json,
          example_setting
            \<lparr>metadata := example_metadata_db,
             scope := example_scope\<lparr>prevent_override := PNone, visible := PNone\<rparr>\<rparr>) \<and>
   visible (scope example_setting) = PBool False"
proof -
  from BaseSetting_json_roundtrip [OF example_init example_to_json]
  obtain x' where a: "BaseSetting_from_json example_json () () () = Inr x'"
    and b: "BaseSetting_to_json json_dumps x' = Inr (example_json, x')"
    and c: "x' = example_setting\<lparr>metadata := example_metadata_db, scope := scope x'\<rparr>"
    and d: "scope x' =
              \<lparr> type = (if truthy (type example_scope) then type example_scope else PNone),
                SettingScope.id = (if truthy (SettingScope.id example_scope)
                                   then SettingScope.id example_scope else PNone),
                role = (if truthy (role example_scope) then role example_scope else PNone),
                prevent_override = (if truthy (prevent_override example_scope)
                                    then prevent_override example_scope else PNone),
                visible = (if truthy (visible example_scope)
                           then visible example_scope else PNone) \<rparr>"
    by auto
  have "scope x' = example_scope\<lparr>prevent_override := PNone, visible := PNone\<rparr>"
    unfolding d by (simp add: example_scope_def)
  with c have "x' = example_setting
            \<lparr>metadata := example_metadata_db,
             scope := example_scope\<lparr>prevent_override := PNone, visible := PNone\<rparr>\<rparr>"
    by simp
  with a b example_init example_to_json show ?thesis
    by (simp add: example_setting_def example_scope_def)
qed

section \<open>Deserialization\<close>

text \<open>
  \<^verbatim>\<open>from_json\<close> hands \<^verbatim>\<open>_json.get('scope', None)\<close> to \<^verbatim>\<open>SettingScope.from_json\<close>, which
  calls \<^verbatim>\<open>.get\<close> on it: without a \<^verbatim>\<open>scope\<close> key the call ends in an
  \<^verbatim>\<open>AttributeError\<close>.
\<close>

lemma from_json_missing_scope:
  "BaseSetting_from_json [(''name'', PStr ''flag1''), (''value'', PBool True)] () () () =
     Inl AttributeError"
  by (simp add: BaseSetting_from_json_def py_get_def)

text \<open>
  Claim C4, as stated, fails: an input with a scope and with neither \<^verbatim>\<open>value\<close> nor
  \<^verbatim>\<open>defaultValue\<close> reaches the check of the constructor, and \<^verbatim>\<open>from_json\<close> raises.
\<close>

theorem from_json_never_fails_counterexample:
  "BaseSetting_from_json [(''name'', PStr ''flag1''), (''scope'', PDict [])] () () () =
     Inl ValidationError"
  by (simp add: BaseSetting_from_json_def BaseSetting_init_def py_get_def)

text \<open>
  Claim C4, amended. \<^verbatim>\<open>SettingScope.from_json\<close> returns on every JSON object, and a key
  that is absent reads as \<^verbatim>\<open>None\<close>. \<^verbatim>\<open>BaseSetting.from_json\<close> returns on every JSON
  object that holds a scope object and a \<^verbatim>\<open>value\<close> or a \<^verbatim>\<open>defaultValue\<close> that is not
  null, whatever other keys are missing or extra, and the entity holds each field as
  \<^verbatim>\<open>.get\<close> reads it; when \<^verbatim>\<open>value\<close> and \<^verbatim>\<open>defaultValue\<close> are both absent or null it
  raises the validation error of the constructor.
\<close>

theorem from_json_absent_fields_null:
  "SettingScope_from_json (PDict d) =
     Inr \<lparr> type = py_get d ''type'', SettingScope.id = py_get d ''id'',
           role = py_get d ''role'', prevent_override = py_get d ''preventOverride'',
           visible = py_get d ''visible'' \<rparr> \<and>
   (map_of d k = None \<longrightarrow> py_get d k = PNone) \<and>
   (py_get j ''scope'' = PDict d \<and>
      (py_get j ''value'' = PNone \<longrightarrow> py_get j ''defaultValue'' \<noteq> PNone) \<longrightarrow>
    BaseSetting_from_json j c p og =
      Inr \<lparr> default_value = py_get j ''defaultValue'', name = py_get j ''name'',
            value = py_get j ''value'', value_type = py_get j ''valueType'',
            scope = \<lparr> type = py_get d ''type'', SettingScope.id = py_get d ''id'',
                      role = py_get d ''role'', prevent_override = py_get d ''preventOverride'',
                      visible = py_get d ''visible'' \<rparr>,
            metadata = py_get j ''metadata'', setting_type = py_get j ''settingType'',
            client_api = c, project = p, org = og, id = py_get j ''id'',
            settings = (c, p, og) \<rparr>) \<and>
   (py_get j ''scope'' = PDict d \<and> py_get j ''value'' = PNone \<and>
      py_get j ''defaultValue'' = PNone \<longrightarrow>
    BaseSetting_from_json j c p og = Inl ValidationError)"
  by (auto simp: BaseSetting_from_json_def BaseSetting_init_def py_get_def)

theorem from_json_absent_fields_null_witness:
  "BaseSetting_from_json
     [(''value'', PInt 1), (''scope'', PDict [(''type'', PStr ''org'')]), (''extra'', PStr ''x'')]
     () () () =
     Inr \<lparr> default_value = PNone, name = PNone, value = PInt 1, value_type = PNone,
           scope = \<lparr> type = PStr ''org'', SettingScope.id = PNone, role = PNone,
                     prevent_override = PNone, visible = PNone \<rparr>,
           metadata = PNone, setting_type = PNone, client_api = (), project = (), org = (),
           id = PNone, settings = ((), (), ()) \<rparr> \<and>
   BaseSetting_from_json [(''name'', PStr ''flag1''), (''scope'', PDict [(''type'', PStr ''org'')])]
     () () () = Inl ValidationError"
  using from_json_absent_fields_null
          [of "[(''type'', PStr ''org'')]" "''role''"
              "[(''value'', PInt 1), (''scope'', PDict [(''type'', PStr ''org'')]),
                (''extra'', PStr ''x'')]" "()" "()" "()"]
        from_json_absent_fields_null
          [of "[(''type'', PStr ''org'')]" "''role''"
              "[(''name'', PStr ''flag1''), (''scope'', PDict [(''type'', PStr ''org'')])]"
              "()" "()" "()"]
  by (simp add: py_get_def)

section \<open>Setting: the fixed setting type and the added keys\<close>

lemma BaseSetting_to_json_setting_type:
  assumes "BaseSetting_to_json dumps s = Inr (j, s')"
  shows "map_of j ''settingType'' = Some (setting_type s) \<and> setting_type s' = setting_type s"
proof -
  from assms obtain m where s': "s' = s\<lparr>metadata := m\<rparr>"
    and j: "j = (let j = [(''name'', name s), (''valueType'', value_type s),
                       (''scope'', PDict (SettingScope_to_json (scope s))),
                       (''settingType'', setting_type s), (''id'', id s)];
                  j = (if m \<noteq> PNone then py_setitem j ''metadata'' m else j);
                  j = (if value s \<noteq> PNone then py_setitem j ''value'' (value s) else j);
                  j = (if default_value s \<noteq> PNone
                       then py_setitem j ''defaultValue'' (default_value s) else j)
              in j)"
    by (rule BaseSetting_to_json_Inr)
  show ?thesis by (simp add: j s' Let_def map_of_py_setitem)
qed

lemma Setting_to_json_eq:
  "Setting_to_json dumps s =
     (case BaseSetting_to_json dumps s of
        Inl e \<Rightarrow> Inl e
      | Inr (j, s') \<Rightarrow>
          Inr (let j = (if description s \<noteq> PNone
                        then py_setitem j ''description'' (description s) else j);
                   j = (if inputs s \<noteq> PNone then py_setitem j ''inputs'' (inputs s) else j);
                   j = (if icon s \<noteq> PNone then py_setitem j ''icon'' (icon s) else j);
                   j = (if section_name s \<noteq> PNone
                        then py_setitem j ''sectionName'' (section_name s) else j);
                   j = (if hint s \<noteq> PNone then py_setitem j ''hint'' (hint s) else j);
                   j = (if sub_section_name s \<noteq> PNone
                        then py_setitem j ''subSectionName'' (sub_section_name s) else j);
                   j = (if id s \<noteq> PNone then py_setitem j ''id'' (id s) else j)
               in j, s'))"
proof (cases "BaseSetting_to_json dumps s")
  case (Inl e)
  then show ?thesis by (simp add: Setting_to_json_def)
next
  case (Inr r)
  obtain j s' where r: "r = (j, s')" by (cases r)
  with Inr obtain m where s': "s' = s\<lparr>metadata := m\<rparr>"
    by (auto elim: BaseSetting_to_json_Inr)
  with Inr r show ?thesis by (simp add: Setting_to_json_def Let_def cong: if_cong)
qed

lemma Setting_init_setting_type:
  "Setting_init v n vt sc sn dv inp md de ic i ssn h c p og = Inr s \<Longrightarrow>
     setting_type s = USER_SETTINGS"
  by (auto simp: Setting_init_def BaseSetting_init_def BaseSetting.defs Setting.defs
           split: if_splits)

text \<open>
  Claim C7. A \<^verbatim>\<open>Setting\<close> that the constructor or \<^verbatim>\<open>Setting.from_json\<close> returns has the
  setting type \<^verbatim>\<open>user_settings\<close>, whatever \<^verbatim>\<open>settingType\<close> the JSON holds, and every
  dictionary its \<^verbatim>\<open>to_json\<close> returns holds \<^verbatim>\<open>user_settings\<close> under \<^verbatim>\<open>settingType\<close>.
\<close>

theorem Setting_setting_type_user_settings:
  assumes "Setting_init v n vt sc sn dv inp md de ic i ssn h c p og = Inr s \<or>
           Setting_from_json j c p og = Inr s"
  shows "setting_type s = PStr ''user_settings'' \<and>
         (\<forall>out s'. Setting_to_json dumps s = Inr (out, s') \<longrightarrow>
            map_of out ''settingType'' = Some (PStr ''user_settings'') \<and>
            setting_type s' = PStr ''user_settings'')"
proof -
  from assms have st: "setting_type s = PStr ''user_settings''"
    by (auto simp: Setting_from_json_def USER_SETTINGS_def split: sum.splits
             dest: Setting_init_setting_type)
  have "map_of out ''settingType'' = Some (PStr ''user_settings'') \<and>
        setting_type s' = PStr ''user_settings''"
    if "Setting_to_json dumps s = Inr (out, s')" for out s'
  proof -
    from that obtain jb where b: "BaseSetting_to_json dumps s = Inr (jb, s')"
      and out: "out = (let j = (if description s \<noteq> PNone
                        then py_setitem jb ''description'' (description s) else jb);
                   j = (if inputs s \<noteq> PNone then py_setitem j ''inputs'' (inputs s) else j);
                   j = (if icon s \<noteq> PNone then py_setitem j ''icon'' (icon s) else j);
                   j = (if section_name s \<noteq> PNone
                        then py_setitem j ''sectionName'' (section_name s) else j);
                   j = (if hint s \<noteq> PNone then py_setitem j ''hint'' (hint s) else j);
                   j = (if sub_section_name s \<noteq> PNone
                        then py_setitem j ''subSectionName'' (sub_section_name s) else j);
                   j = (if id s \<noteq> PNone then py_setitem j ''id'' (id s) else j)
               in j)"
      unfolding Setting_to_json_eq by (auto split: sum.splits)
    from b have "map_of jb ''settingType'' = Some (setting_type s)"
      and "setting_type s' = setting_type s"
      by (simp_all add: BaseSetting_to_json_setting_type)
    with st show ?thesis by (simp add: out Let_def map_of_py_setitem)
  qed
  with st show ?thesis by blast
qed


lemma example_ui_from_json: "Setting_from_json example_ui_json () () () = Inr example_ui_setting"
  by code_simp

lemma example_ui_base_to_json:
  "BaseSetting_to_json json_dumps example_ui_setting = Inr (example_ui_base_out, example_ui_setting)"
  by code_simp

lemma example_ui_to_json:
  "Setting_to_json json_dumps example_ui_setting = Inr (example_ui_out, example_ui_setting)"
  by code_simp

theorem Setting_setting_type_user_settings_witness:
  "Setting_from_json example_ui_json () () () = Inr example_ui_setting \<and>
   py_get example_ui_json ''settingType'' = PStr ''feature_flag'' \<and>
   setting_type example_ui_setting = PStr ''user_settings'' \<and>
   Setting_to_json json_dumps example_ui_setting = Inr (example_ui_out, example_ui_setting) \<and>
   map_of example_ui_out ''settingType'' = Some (PStr ''user_settings'')"
proof -
  from Setting_setting_type_user_settings
         [OF disjI2, OF example_ui_from_json, where dumps = json_dumps]
    example_ui_from_json example_ui_to_json
  show ?thesis by (simp add: example_ui_json_def py_get_def)
qed

lemma BaseSetting_to_json_key_set:
  assumes "BaseSetting_to_json dumps s = Inr (j, s')"
  shows "fst ` set j \<subseteq> {''name'', ''valueType'', ''scope'', ''settingType'', ''id'', ''metadata'',
                        ''value'', ''defaultValue''} \<and> map_of j ''id'' = Some (id s)"
proof -
  from assms obtain m where
    j: "j = (let j = [(''name'', name s), (''valueType'', value_type s),
                       (''scope'', PDict (SettingScope_to_json (scope s))),
                       (''settingType'', setting_type s), (''id'', id s)];
                  j = (if m \<noteq> PNone then py_setitem j ''metadata'' m else j);
                  j = (if value s \<noteq> PNone then py_setitem j ''value'' (value s) else j);
                  j = (if default_value s \<noteq> PNone
                       then py_setitem j ''defaultValue'' (default_value s) else j)
              in j)"
    by (rule BaseSetting_to_json_Inr)
  show ?thesis by (simp add: j Let_def keys_py_setitem map_of_py_setitem)
qed

lemma map_of_absent: "k \<notin> fst ` set d \<Longrightarrow> map_of d k = None"
  by (simp add: map_of_eq_None_iff)

text \<open>
  Claim C8. \<^verbatim>\<open>Setting.to_json\<close> raises where the serialization of the base class raises
  on the same entity, and otherwise returns a dictionary that holds every key of the
  base dictionary with the same value (\<^verbatim>\<open>id\<close> with the value of the field, as the base
  wrote it), holds each of \<^verbatim>\<open>description\<close>, \<^verbatim>\<open>inputs\<close>, \<^verbatim>\<open>icon\<close>, \<^verbatim>\<open>sectionName\<close>,
  \<^verbatim>\<open>hint\<close> and \<^verbatim>\<open>subSectionName\<close> exactly when the field is not \<^verbatim>\<open>None\<close>, and holds
  no further key.
\<close>

theorem Setting_to_json_superset:
  "(BaseSetting_to_json dumps s = Inl e \<longrightarrow> Setting_to_json dumps s = Inl e) \<and>
   (BaseSetting_to_json dumps s = Inr (jb, s') \<longrightarrow>
      (\<exists>js. Setting_to_json dumps s = Inr (js, s') \<and>
         (\<forall>k v. map_of jb k = Some v \<longrightarrow> map_of js k = Some v) \<and>
         map_of js ''id'' = Some (id s) \<and>
         map_of js ''description'' = (if description s = PNone then None else Some (description s)) \<and>
         map_of js ''inputs'' = (if inputs s = PNone then None else Some (inputs s)) \<and>
         map_of js ''icon'' = (if icon s = PNone then None else Some (icon s)) \<and>
         map_of js ''sectionName'' =
           (if section_name s = PNone then None else Some (section_name s)) \<and>
         map_of js ''hint'' = (if hint s = PNone then None else Some (hint s)) \<and>
         map_of js ''subSectionName'' =
           (if sub_section_name s = PNone then None else Some (sub_section_name s)) \<and>
         fst ` set js \<subseteq> fst ` set jb \<union> {''description'', ''inputs'', ''icon'', ''sectionName'',
                                           ''hint'', ''subSectionName''}))"
proof (intro conjI impI)
  assume "BaseSetting_to_json dumps s = Inl e"
  then show "Setting_to_json dumps s = Inl e" by (simp add: Setting_to_json_eq)
next
  assume b: "BaseSetting_to_json dumps s = Inr (jb, s')"
  define js where "js = (let j = (if description s \<noteq> PNone
                        then py_setitem jb ''description'' (description s) else jb);
                   j = (if inputs s \<noteq> PNone then py_setitem j ''inputs'' (inputs s) else j);
                   j = (if icon s \<noteq> PNone then py_setitem j ''icon'' (icon s) else j);
                   j = (if section_name s \<noteq> PNone
                        then py_setitem j ''sectionName'' (section_name s) else j);
                   j = (if hint s \<noteq> PNone then py_setitem j ''hint'' (hint s) else j);
                   j = (if sub_section_name s \<noteq> PNone
                        then py_setitem j ''subSectionName'' (sub_section_name s) else j);
                   j = (if id s \<noteq> PNone then py_setitem j ''id'' (id s) else j)
               in j)"
  from b have r: "Setting_to_json dumps s = Inr (js, s')"
    by (simp add: Setting_to_json_eq js_def)
  from b have keys: "fst ` set jb \<subseteq> {''name'', ''valueType'', ''scope'', ''settingType'', ''id'',
                        ''metadata'', ''value'', ''defaultValue''}"
    and idb: "map_of jb ''id'' = Some (id s)"
    by (simp_all add: BaseSetting_to_json_key_set)
  from keys have none: "map_of jb ''description'' = None" "map_of jb ''inputs'' = None"
    "map_of jb ''icon'' = None" "map_of jb ''sectionName'' = None" "map_of jb ''hint'' = None"
    "map_of jb ''subSectionName'' = None"
    by (auto intro!: map_of_absent)
  have sup: "\<forall>k v. map_of jb k = Some v \<longrightarrow> map_of js k = Some v"
    using none idb by (auto simp: js_def Let_def map_of_py_setitem)
  have ids: "map_of js ''id'' = Some (id s)"
    using idb by (simp add: js_def Let_def map_of_py_setitem)
  have d1: "map_of js ''description'' = (if description s = PNone then None else Some (description s))"
    using none by (simp add: js_def Let_def map_of_py_setitem)
  have d2: "map_of js ''inputs'' = (if inputs s = PNone then None else Some (inputs s))"
    using none by (simp add: js_def Let_def map_of_py_setitem)
  have d3: "map_of js ''icon'' = (if icon s = PNone then None else Some (icon s))"
    using none by (simp add: js_def Let_def map_of_py_setitem)
  have d4: "map_of js ''sectionName'' = (if section_name s = PNone then None else Some (section_name s))"
    using none by (simp add: js_def Let_def map_of_py_setitem)
  have d5: "map_of js ''hint'' = (if hint s = PNone then None else Some (hint s))"
    using none by (simp add: js_def Let_def map_of_py_setitem)
  have d6: "map_of js ''subSectionName'' =
              (if sub_section_name s = PNone then None else Some (sub_section_name s))"
    using none by (simp add: js_def Let_def map_of_py_setitem)
  have idk: "''id'' \<in> fst ` set jb"
    using idb by (auto dest: map_of_SomeD intro: rev_image_eqI)
  have ks: "fst ` set js \<subseteq> fst ` set jb \<union> {''description'', ''inputs'', ''icon'', ''sectionName'',
                                           ''hint'', ''subSectionName''}"
    using idk by (auto simp: js_def Let_def keys_py_setitem)
  from r sup ids d1 d2 d3 d4 d5 d6 ks
  show "\<exists>js. Setting_to_json dumps s = Inr (js, s') \<and>
         (\<forall>k v. map_of jb k = Some v \<longrightarrow> map_of js k = Some v) \<and>
         map_of js ''id'' = Some (id s) \<and>
         map_of js ''description'' = (if description s = PNone then None else Some (description s)) \<and>
         map_of js ''inputs'' = (if inputs s = PNone then None else Some (inputs s)) \<and>
         map_of js ''icon'' = (if icon s = PNone then None else Some (icon s)) \<and>
         map_of js ''sectionName'' =
           (if section_name s = PNone then None else Some (section_name s)) \<and>
         map_of js ''hint'' = (if hint s = PNone then None else Some (hint s)) \<and>
         map_of js ''subSectionName'' =
           (if sub_section_name s = PNone then None else Some (sub_section_name s)) \<and>
         fst ` set js \<subseteq> fst ` set jb \<union> {''description'', ''inputs'', ''icon'', ''sectionName'',
                                           ''hint'', ''subSectionName''}"
    by blast
qed

theorem Setting_to_json_superset_witness:
  "BaseSetting_to_json json_dumps example_ui_setting =
     Inr (example_ui_base_out, example_ui_setting) \<and>
   Setting_to_json json_dumps example_ui_setting = Inr (example_ui_out, example_ui_setting) \<and>
   map_of example_ui_base_out ''id'' = Some (PStr ''s1'') \<and>
   map_of example_ui_out ''id'' = Some (PStr ''s1'') \<and>
   map_of example_ui_out ''description'' = Some (PStr ''Colour theme'') \<and>
   map_of example_ui_out ''sectionName'' = Some (PStr ''Account'') \<and>
   map_of example_ui_out ''icon'' = None"
proof -
  have f: "id example_ui_setting = PStr ''s1''"
    "description example_ui_setting = PStr ''Colour theme''"
    "section_name example_ui_setting = PStr ''Account''"
    "icon example_ui_setting = PNone"
    by (simp_all add: example_ui_setting_def)
  have b: "map_of example_ui_base_out ''id'' = Some (PStr ''s1'')"
    by (simp add: example_ui_base_out_def)
  from Setting_to_json_superset
         [of json_dumps example_ui_setting TypeError example_ui_base_out example_ui_setting]
       example_ui_base_to_json example_ui_to_json f b
  show ?thesis by auto
qed

end
